theory Spec2Isabelle
  imports Complex_Main
begin

section \<open>Data model of the infinite review scheduler\<close>

text \<open>
  The scheduler lives in two places of the repository: the store actions
  (\<open>initialReviewState\<close>, \<open>qualityFromGrade\<close>, \<open>seedCardsFromUnits\<close>,
  \<open>ensureReviewCardsFromUnits\<close>, \<open>addGeneratedReviewCards\<close>, \<open>recordReviewResult\<close>)
  and the session component (\<open>weightedRandomByOverdue\<close>, \<open>getNextCard\<close>).

  JavaScript numbers are modelled by what they hold: the counters \<open>seenCount\<close>,
  \<open>repetition\<close> and \<open>lapses\<close> (they start at 0 and are only ever incremented or
  reset to 0 or 1) as \<open>nat\<close>, millisecond timestamps and the interval in days as
  \<open>int\<close>, the ease factor and the selection weights as \<open>real\<close>. The ease factor
  and the interval product are computed in IEEE doubles by the source; there every
  arithmetic result and every decimal literal goes through \<open>fl\<close>, the rounding to the
  nearest double. The selection weights and the weighted draw are in exact real
  arithmetic. \<open>Date.now()\<close> and \<open>Math.random()\<close> are read from the environment in
  the source; here each call is a parameter of the function that makes it.

  The state object \<open>reviewCardState\<close> is a plain JavaScript object; the map models its
  own properties. The names in \<open>objectPrototypeKeys\<close> are found on every plain object
  by inheritance: for such a name without an own entry the source reads the inherited
  value where the map reads nothing, and an assignment to \<open>__proto__\<close> replaces the
  prototype and stores no own entry. The model is exact for every other card id, in a
  store without an entry for \<open>__proto__\<close>.
\<close>

datatype phase = Learn | Review

datatype ReviewGrade = Again | Hard | Good | Easy

record ReviewCardState =
  phase :: phase
  seenCount :: nat
  dueAt :: int
  interval :: int
  repetition :: nat
  efactor :: real
  lapses :: nat
  lastReviewedAt :: "int option"

datatype Flashcard =
  Flashcard (fc_id: string) (fc_unitId: string) (fc_front: string) (fc_back: string)

datatype CardSource = Seed | AI

datatype Difficulty = DEasy | DMedium | DHard

datatype ParsonsBlock =
  ParsonsBlock (block_id: string) (block_text: string) (block_indent: int)

text \<open>\<open>ReviewCard = ReviewConceptCard | ReviewCodeParsonsCard\<close>; both carry \<open>id\<close> and \<open>unitId\<close>.\<close>

datatype ReviewCard =
  ConceptCard (card_id: string) (card_unitId: string) (card_source: CardSource)
    (card_front: string) (card_back: string) (card_tags: "string list option")
| CodeParsonsCard (card_id: string) (card_unitId: string) (card_source: CardSource)
    (card_prompt: string) (card_explanation: string) (card_leetcodeUrl: string)
    (card_difficulty: Difficulty) (card_functionName: string)
    (card_blocks: "ParsonsBlock list") (card_solutionOrder: "string list")

text \<open>Of a \<open>Unit\<close> the scheduler reads the title and the flashcards only.\<close>

record Unit =
  title :: string
  flashcards :: "Flashcard list option"

text \<open>
  The two slices of the store that the review actions read and write. The store's
  \<open>set\<close> merges the returned partial state, so every other slice is left as it is.
\<close>

record AppState =
  reviewCards :: "ReviewCard list"
  reviewCardState :: "string \<rightharpoonup> ReviewCardState"

section \<open>Double arithmetic\<close>

text \<open>The number of binary digits of a natural number.\<close>

fun bitLength :: "nat \<Rightarrow> nat" where
  "bitLength 0 = 0"
| "bitLength (Suc n) = Suc (bitLength (Suc n div 2))"

text \<open>
  The exponent of the last of the 53 significant bits of a non-zero \<open>x\<close>: the \<open>e\<close> with
  \<open>2^52 \<le> |x| / 2^e < 2^53\<close>.
\<close>

definition ulpExp :: "real \<Rightarrow> int" where
  "ulpExp x =
     (let a = \<bar>x\<bar>
      in if 1 \<le> a then int (bitLength (nat \<lfloor>a\<rfloor>)) - 53
         else - int (bitLength (nat (\<lceil>1 / a\<rceil> - 1))) - 52)"

text \<open>Rounding to the nearest integer, a tie to the even one.\<close>

definition roundHalfEven :: "real \<Rightarrow> int" where
  "roundHalfEven m =
     (let n = \<lfloor>m\<rfloor>; d = m - real_of_int n
      in if d < 1 / 2 then n
         else if 1 / 2 < d then n + 1
         else if even n then n else n + 1)"

text \<open>
  \<open>fl x\<close> is the double nearest to \<open>x\<close> (round to nearest, ties to even, 53 significant
  bits). The exponent is not bounded: overflow to \<open>Infinity\<close> and the subnormal numbers
  are outside the model.
\<close>

definition fl :: "real \<Rightarrow> real" where
  "fl x =
     (if x = 0 then 0
      else (let e = ulpExp x
            in real_of_int (roundHalfEven (x / 2 powi e)) * 2 powi e))"

section \<open>Store actions\<close>

text \<open>
  The property names that every plain object inherits from \<open>Object.prototype\<close>
  (ECMAScript, with the legacy accessors of its Annex B).
\<close>

definition objectPrototypeKeys :: "string list" where
  "objectPrototypeKeys =
     [''constructor'', ''hasOwnProperty'', ''isPrototypeOf'', ''propertyIsEnumerable'',
      ''toLocaleString'', ''toString'', ''valueOf'', ''__proto__'',
      ''__defineGetter__'', ''__defineSetter__'', ''__lookupGetter__'', ''__lookupSetter__'']"

definition seedCardsFromUnits :: "Unit list \<Rightarrow> ReviewCard list" where
  "seedCardsFromUnits units =
     concat (map (\<lambda>unit.
       map (\<lambda>c. ConceptCard (fc_id c) (fc_unitId c) Seed (fc_front c) (fc_back c)
                     (Some [title unit]))
           (case flashcards unit of None \<Rightarrow> [] | Some fs \<Rightarrow> fs)) units)"

definition initialReviewState :: ReviewCardState where
  "initialReviewState =
     \<lparr> phase = Learn, seenCount = 0, dueAt = 0, interval = 0, repetition = 0,
       efactor = 2.5, lapses = 0, lastReviewedAt = None \<rparr>"

fun qualityFromGrade :: "ReviewGrade \<Rightarrow> int" where
  "qualityFromGrade Again = 1"
| "qualityFromGrade Hard = 2"
| "qualityFromGrade Good = 4"
| "qualityFromGrade Easy = 5"

text \<open>\<open>Math.round\<close> rounds to the nearest integer, a half towards plus infinity.\<close>

definition Math_round :: "real \<Rightarrow> int" where
  "Math_round x = \<lfloor>x + 1 / 2\<rfloor>"

text \<open>\<open>24 * 60 * 60 * 1000\<close>, the milliseconds of a day.\<close>

definition dayMs :: int where
  "dayMs = 24 * 60 * 60 * 1000"

text \<open>
  The body of \<open>recordReviewResult\<close> after \<open>prev\<close> and \<open>now\<close> are bound: the new state
  of the graded card. \<open>interval * efactor * bonus\<close> is two double multiplications,
  the ease update five double operations on the doubles of its literals; the counters
  and the timestamps are integers, on which double arithmetic is exact.
\<close>

definition nextReviewState :: "ReviewCardState \<Rightarrow> ReviewGrade \<Rightarrow> int \<Rightarrow> ReviewCardState" where
  "nextReviewState prev grade now =
     (if phase prev = Learn then
        (let seenCount' = seenCount prev + 1;
             hasGraduated = (seenCount' \<ge> 10)
         in prev\<lparr> phase := (if hasGraduated then Review else Learn),
                  seenCount := seenCount',
                  dueAt := (if hasGraduated then now + dayMs else now),
                  interval := (if hasGraduated then 1 else 0),
                  repetition := (if hasGraduated then 1 else 0),
                  lastReviewedAt := Some now \<rparr>)
      else
        (let quality = qualityFromGrade grade;
             bonus = (if quality = 5 then fl 1.15 else 1);
             interval' =
               (if quality < 3 then 1
                else if repetition prev = 0 then 1
                else if repetition prev = 1 then 6
                else max 1 (Math_round
                              (fl (fl (real_of_int (interval prev) * efactor prev) * bonus))));
             repetition' = (if quality < 3 then 0 else repetition prev + 1);
             lapses' = (if quality < 3 then lapses prev + 1 else lapses prev);
             e = fl (efactor prev
                       + fl (fl 0.1 - fl (real_of_int (5 - quality)
                                          * fl (fl 0.08 + fl (real_of_int (5 - quality) * fl 0.02)))));
             efactor' = (if e < fl 1.3 then fl 1.3 else e)
         in prev\<lparr> phase := Review,
                  interval := interval',
                  repetition := repetition',
                  efactor := efactor',
                  lapses := lapses',
                  dueAt := now + interval' * dayMs,
                  lastReviewedAt := Some now \<rparr>))"

text \<open>
  \<open>recordReviewResult\<close>: a card id without a state is graded from a fresh
  \<open>initialReviewState()\<close> (\<open>state.reviewCardState[cardId] || initialReviewState()\<close>).
  For a card id in \<open>objectPrototypeKeys\<close> that has no own entry the source reads the
  inherited value in place of a state; that case is outside this definition.
\<close>

definition recordReviewResult :: "string \<Rightarrow> ReviewGrade \<Rightarrow> int \<Rightarrow> AppState \<Rightarrow> AppState" where
  "recordReviewResult cardId grade now state =
     (let prev = (case reviewCardState state cardId of
                    None \<Rightarrow> initialReviewState | Some p \<Rightarrow> p)
      in state\<lparr> reviewCardState :=
                  (reviewCardState state)(cardId \<mapsto> nextReviewState prev grade now) \<rparr>)"

text \<open>A session of grades of one card: the pairs are the grade and the clock at that grade.\<close>

fun recordReviewResults :: "string \<Rightarrow> (ReviewGrade \<times> int) list \<Rightarrow> AppState \<Rightarrow> AppState" where
  "recordReviewResults cardId [] state = state"
| "recordReviewResults cardId ((grade, now) # rest) state =
     recordReviewResults cardId rest (recordReviewResult cardId grade now state)"

text \<open>Grades of any cards, one after the other: card id, grade and the clock at that grade.\<close>

fun recordReviewEvents :: "(string \<times> ReviewGrade \<times> int) list \<Rightarrow> AppState \<Rightarrow> AppState" where
  "recordReviewEvents [] state = state"
| "recordReviewEvents ((cardId, grade, now) # rest) state =
     recordReviewEvents rest (recordReviewResult cardId grade now state)"

text \<open>The state a grade of \<open>cardId\<close> starts from (\<open>prev\<close> in \<open>recordReviewResult\<close>).\<close>

definition prevState :: "AppState \<Rightarrow> string \<Rightarrow> ReviewCardState" where
  "prevState state cardId =
     (case reviewCardState state cardId of None \<Rightarrow> initialReviewState | Some p \<Rightarrow> p)"

text \<open>
  \<open>ensureReviewCardsFromUnits\<close> and \<open>addGeneratedReviewCards\<close>: cards whose id is already
  in \<open>reviewCards\<close> are filtered out; when nothing is left the store returns \<open>{}\<close> (no
  change), otherwise the new cards are appended and each gets \<open>initialReviewState()\<close>.
  (For the card id \<open>__proto__\<close> the assignment \<open>nextStates[card.id] = ...\<close> of the
  source sets the prototype of the object; the map stores an entry.)
\<close>

definition ensureReviewCardsFromUnits :: "Unit list \<Rightarrow> AppState \<Rightarrow> AppState" where
  "ensureReviewCardsFromUnits units state =
     (let existingById = set (map card_id (reviewCards state));
          additions = filter (\<lambda>c. card_id c \<notin> existingById) (seedCardsFromUnits units)
      in if length additions = 0 then state
         else
           (let nextStates = fold (\<lambda>c m. m(card_id c \<mapsto> initialReviewState)) additions
                               (reviewCardState state)
            in state\<lparr> reviewCards := reviewCards state @ additions,
                       reviewCardState := nextStates \<rparr>))"

definition addGeneratedReviewCards :: "ReviewCard list \<Rightarrow> AppState \<Rightarrow> AppState" where
  "addGeneratedReviewCards cards state =
     (let byId = set (map card_id (reviewCards state));
          unique = filter (\<lambda>c. card_id c \<notin> byId) cards
      in if length unique = 0 then state
         else
           (let nextStates = fold (\<lambda>c m. m(card_id c \<mapsto> initialReviewState)) unique
                               (reviewCardState state)
            in state\<lparr> reviewCards := reviewCards state @ unique,
                       reviewCardState := nextStates \<rparr>))"

text \<open>
  The three review actions of the store, and a run of them one after the other.
\<close>

datatype StoreAction =
    EnsureReviewCardsFromUnits "Unit list"
  | AddGeneratedReviewCards "ReviewCard list"
  | RecordReviewResult string ReviewGrade int

fun applyAction :: "StoreAction \<Rightarrow> AppState \<Rightarrow> AppState" where
  "applyAction (EnsureReviewCardsFromUnits units) state = ensureReviewCardsFromUnits units state"
| "applyAction (AddGeneratedReviewCards cards) state = addGeneratedReviewCards cards state"
| "applyAction (RecordReviewResult cardId grade now) state =
     recordReviewResult cardId grade now state"

fun applyActions :: "StoreAction list \<Rightarrow> AppState \<Rightarrow> AppState" where
  "applyActions [] state = state"
| "applyActions (a # rest) state = applyActions rest (applyAction a state)"

text \<open>\<open>Date.now()\<close> is not negative.\<close>

fun clockNonNegative :: "StoreAction \<Rightarrow> bool" where
  "clockNonNegative (RecordReviewResult cardId grade now) = (0 \<le> now)"
| "clockNonNegative (EnsureReviewCardsFromUnits units) = True"
| "clockNonNegative (AddGeneratedReviewCards cards) = True"

text \<open>
  An action that names no inherited property: the card ids it adds or grades are not in
  \<open>objectPrototypeKeys\<close>. On a store without entries for such names and for runs of such
  actions the map is exactly the state object of the source.
\<close>

fun ownKeysOnly :: "StoreAction \<Rightarrow> bool" where
  "ownKeysOnly (EnsureReviewCardsFromUnits units) =
     list_all (\<lambda>c. card_id c \<notin> set objectPrototypeKeys) (seedCardsFromUnits units)"
| "ownKeysOnly (AddGeneratedReviewCards cards) =
     list_all (\<lambda>c. card_id c \<notin> set objectPrototypeKeys) cards"
| "ownKeysOnly (RecordReviewResult cardId grade now) = (cardId \<notin> set objectPrototypeKeys)"

section \<open>Card selection\<close>

text \<open>
  The weight that the \<open>map\<close> callback of \<open>weightedRandomByOverdue\<close> gives a card.
  \<open>st?.dueAt || now\<close> replaces a missing state and a \<open>dueAt\<close> of 0 (falsy) by \<open>now\<close>;
  \<open>st?.lapses || 0\<close> replaces a missing state by 0.
\<close>

definition cardWeight :: "int \<Rightarrow> (string \<rightharpoonup> ReviewCardState) \<Rightarrow> ReviewCard \<Rightarrow> real" where
  "cardWeight now stateById c =
     (let st = stateById (card_id c);
          due = (case st of None \<Rightarrow> now | Some s \<Rightarrow> if dueAt s = 0 then now else dueAt s);
          overdueDays = max 0 (real_of_int (now - due) / (1000 * 60 * 60 * 24));
          lapses' = (case st of None \<Rightarrow> 0 | Some s \<Rightarrow> lapses s)
      in 1 + overdueDays + real lapses' * 0.5)"

text \<open>
  The \<open>for\<close> loop of \<open>weightedRandomByOverdue\<close>: subtract each weight from \<open>rand\<close> and
  return the first card at which it is no longer positive; \<open>None\<close> when the loop ends
  without returning.
\<close>

fun drawWeighted :: "real \<Rightarrow> (ReviewCard \<times> real) list \<Rightarrow> ReviewCard option" where
  "drawWeighted rand [] = None"
| "drawWeighted rand ((c, weight) # rest) =
     (let rand' = rand - weight
      in if rand' \<le> 0 then Some c else drawWeighted rand' rest)"

text \<open>Reading \<open>weighted[0].card\<close> of an empty array throws a \<open>TypeError\<close>.\<close>

datatype error = TypeError

definition weightedRandomByOverdue ::
  "ReviewCard list \<Rightarrow> (string \<rightharpoonup> ReviewCardState) \<Rightarrow> int \<Rightarrow> real \<Rightarrow> error + ReviewCard" where
  "weightedRandomByOverdue cards stateById now random =
     (let weighted = map (\<lambda>c. (c, cardWeight now stateById c)) cards;
          total = foldl (\<lambda>acc item. acc + snd item) 0 weighted;
          rand = random * total
      in case drawWeighted rand weighted of
           Some chosen \<Rightarrow> Inr chosen
         | None \<Rightarrow> (case weighted of [] \<Rightarrow> Inl TypeError | item # _ \<Rightarrow> Inr (fst item)))"

text \<open>The two filters of \<open>getNextCard\<close>.\<close>

definition isLearning :: "(string \<rightharpoonup> ReviewCardState) \<Rightarrow> ReviewCard \<Rightarrow> bool" where
  "isLearning stateById c =
     (case stateById (card_id c) of
        None \<Rightarrow> False | Some st \<Rightarrow> phase st = Learn \<and> seenCount st < 10)"

definition isDue :: "(string \<rightharpoonup> ReviewCardState) \<Rightarrow> int \<Rightarrow> ReviewCard \<Rightarrow> bool" where
  "isDue stateById now c =
     (case stateById (card_id c) of
        None \<Rightarrow> False | Some st \<Rightarrow> phase st = Review \<and> dueAt st \<le> now)"

text \<open>\<open>stateById[c.id]?.seenCount ?? 0\<close>\<close>

definition seenOf :: "(string \<rightharpoonup> ReviewCardState) \<Rightarrow> ReviewCard \<Rightarrow> nat" where
  "seenOf stateById c = (case stateById (card_id c) of None \<Rightarrow> 0 | Some st \<Rightarrow> seenCount st)"

text \<open>
  \<open>getNextCard\<close>. \<open>now\<close> is the clock read by \<open>getNextCard\<close>, \<open>now2\<close> the later one
  read inside \<open>weightedRandomByOverdue\<close>, \<open>random\<close> the one \<open>Math.random()\<close> drawn on
  the path taken (a number in \<open>[0, 1)\<close>). \<open>None\<close> is \<open>null\<close>; an index outside the
  bucket reads \<open>undefined\<close>, which the caller (\<open>next?.id || null\<close>) does not tell from
  \<open>null\<close>, and is \<open>None\<close> here too.
\<close>

definition getNextCard ::
  "ReviewCard list \<Rightarrow> (string \<rightharpoonup> ReviewCardState) \<Rightarrow> int \<Rightarrow> int \<Rightarrow> real
     \<Rightarrow> error + ReviewCard option" where
  "getNextCard cards stateById now now2 random =
     (let learningCards = filter (isLearning stateById) cards
      in if length learningCards > 0 then
           (let minSeen = min_list (map (seenOf stateById) learningCards);
                bucket = filter (\<lambda>c. seenOf stateById c = minSeen) learningCards;
                i = \<lfloor>random * real (length bucket)\<rfloor>
            in Inr (if 0 \<le> i \<and> i < int (length bucket) then Some (bucket ! nat i) else None))
         else
           (let dueCards = filter (isDue stateById now) cards
            in if length dueCards = 0 then Inr None
               else (case weightedRandomByOverdue dueCards stateById now2 random of
                       Inl e \<Rightarrow> Inl e | Inr chosen \<Rightarrow> Inr (Some chosen))))"

section \<open>The specification's wording, for comparison\<close>

text \<open>
  The state the specification gives a newly added card: as \<open>initialReviewState\<close>, with
  \<open>dueAt\<close> the creation time.
\<close>

definition spec_initialCardState :: "int \<Rightarrow> ReviewCardState" where
  "spec_initialCardState now =
     \<lparr> phase = Learn, seenCount = 0, dueAt = now, interval = 0, repetition = 0,
       efactor = 2.5, lapses = 0, lastReviewedAt = None \<rparr>"

text \<open>A store without review cards, for the examples below.\<close>

definition emptyStore :: AppState where
  "emptyStore = \<lparr> reviewCards = [], reviewCardState = Map.empty \<rparr>"

section \<open>Facts about the double rounding\<close>

lemma bitLength_bounds: "0 < n \<Longrightarrow> 2 ^ (bitLength n - 1) \<le> n \<and> n < 2 ^ bitLength n"
proof (induction n rule: bitLength.induct)
  case 1
  then show ?case by simp
next
  case (2 m)
  let ?n = "Suc m"
  show ?case
  proof (cases "?n div 2 = 0")
    case True
    then have "m = 0" by (simp add: div_eq_0_iff)
    then show ?thesis by simp
  next
    case False
    then have pos: "0 < ?n div 2" by simp
    from "2.IH"[OF pos]
    have IH: "2 ^ (bitLength (?n div 2) - 1) \<le> ?n div 2" "?n div 2 < 2 ^ bitLength (?n div 2)"
      by simp_all
    have bl: "bitLength ?n = Suc (bitLength (?n div 2))" by simp
    have "0 < bitLength (?n div 2)" using pos by (cases "?n div 2") simp_all
    then obtain k where k: "bitLength (?n div 2) = Suc k"
      by (cases "bitLength (?n div 2)") auto
    from IH k have "2 * 2 ^ k \<le> 2 * (?n div 2)" by simp
    also have "\<dots> \<le> ?n" by simp
    finally have lo: "2 ^ (bitLength ?n - 1) \<le> ?n" by (simp only: bl k) simp
    from IH(2) have "?n div 2 + 1 \<le> 2 ^ bitLength (?n div 2)" by simp
    then have "2 * (?n div 2) + 2 \<le> 2 * 2 ^ bitLength (?n div 2)" by simp
    moreover have "?n < 2 * (?n div 2) + 2" by presburger
    ultimately have "?n < 2 ^ bitLength ?n" by (simp only: bl) simp
    with lo show ?thesis by simp
  qed
qed

lemma roundHalfEven_ge_floor: "\<lfloor>m\<rfloor> \<le> roundHalfEven m"
  by (simp add: roundHalfEven_def Let_def)

text \<open>Rounding is at least 1 on numbers that are at least 1 (1 is a double).\<close>

lemma fl_ge_one:
  assumes "1 \<le> x"
  shows "1 \<le> fl x"
proof -
  let ?n = "nat \<lfloor>x\<rfloor>"
  let ?L = "bitLength ?n"
  from assms have npos: "0 < ?n" by simp
  from bitLength_bounds[OF npos] have lo: "2 ^ (?L - 1) \<le> ?n" by simp
  have Lpos: "0 < ?L" using npos by (cases ?n) simp_all
  have "real ?n \<le> x" using assms by simp
  with lo have xlo: "(2::real) ^ (?L - 1) \<le> x"
    by (metis (no_types, lifting) of_nat_le_iff of_nat_numeral of_nat_power order_trans)
  have e: "ulpExp x = int ?L - 53" using assms by (simp add: ulpExp_def)
  let ?e = "int ?L - 53"
  have p: "(2::real) powi ?e * 2 ^ 52 = 2 ^ (?L - 1)"
  proof -
    have a: "(2::real) powi (?e + 52) = 2 powi ?e * 2 powi 52"
      by (rule power_int_add) simp
    have b: "?e + 52 = int (?L - 1)" using Lpos by simp
    have c: "(2::real) powi 52 = 2 ^ 52" by (rule power_int_numeral)
    have d: "(2::real) powi int (?L - 1) = 2 ^ (?L - 1)" by (rule power_int_of_nat)
    from a b c d show ?thesis by metis
  qed
  have spos: "0 < (2::real) powi ?e" by simp
  have "(2::real) ^ 52 \<le> x / 2 powi ?e"
    using xlo p spos by (simp add: pos_le_divide_eq mult.commute)
  then have "(2::int) ^ 52 \<le> \<lfloor>x / 2 powi ?e\<rfloor>" by (simp add: le_floor_iff)
  with roundHalfEven_ge_floor[of "x / 2 powi ?e"]
  have "(2::int) ^ 52 \<le> roundHalfEven (x / 2 powi ?e)" by linarith
  then have "(2::real) ^ 52 \<le> real_of_int (roundHalfEven (x / 2 powi ?e))"
    by (metis of_int_le_iff of_int_numeral of_int_power)
  then have "2 ^ 52 * 2 powi ?e \<le> real_of_int (roundHalfEven (x / 2 powi ?e)) * 2 powi ?e"
    using spos by (simp only: mult_le_cancel_right_pos)
  moreover have "(2::real) ^ 52 * 2 powi ?e = 2 ^ (?L - 1)"
    using p by (simp only: mult.commute)
  moreover have "(1::real) \<le> 2 ^ (?L - 1)" by simp
  ultimately have "1 \<le> real_of_int (roundHalfEven (x / 2 powi ?e)) * 2 powi ?e"
    by linarith
  moreover have "x \<noteq> 0" using assms by simp
  ultimately show ?thesis by (simp add: fl_def e Let_def)
qed

text \<open>The double of the literal \<open>1.3\<close> is a little above 13/10.\<close>

lemma fl_clamp_literal: "13 / 10 \<le> fl (13 / 10)"
  by code_simp

lemma fl_fifteen: "fl 15 = 15"
  by code_simp

section \<open>Adding cards\<close>

lemma ensure_as_add:
  "ensureReviewCardsFromUnits units state = addGeneratedReviewCards (seedCardsFromUnits units) state"
  by (simp add: ensureReviewCardsFromUnits_def addGeneratedReviewCards_def)

lemma fold_initial_states:
  "fold (\<lambda>c m. m(card_id c \<mapsto> v)) cs m k
     = (if k \<in> card_id ` set cs then Some v else m k)"
  by (induction cs arbitrary: m) auto

lemma add_cards_list:
  "reviewCards (addGeneratedReviewCards cards state)
     = reviewCards state @ filter (\<lambda>c. card_id c \<notin> card_id ` set (reviewCards state)) cards"
  by (simp add: addGeneratedReviewCards_def Let_def)

lemma add_cards_states:
  "reviewCardState (addGeneratedReviewCards cards state) k
     = (if k \<in> card_id ` set cards \<and> k \<notin> card_id ` set (reviewCards state)
        then Some initialReviewState else reviewCardState state k)"
proof (cases "filter (\<lambda>c. card_id c \<notin> card_id ` set (reviewCards state)) cards = []")
  case True
  then have "\<not> (k \<in> card_id ` set cards \<and> k \<notin> card_id ` set (reviewCards state))"
    by (auto simp add: filter_empty_conv)
  with True show ?thesis by (auto simp add: addGeneratedReviewCards_def Let_def)
next
  case False
  then show ?thesis
    by (auto simp add: addGeneratedReviewCards_def Let_def fold_initial_states)
qed




subsection \<open>The state of a newly added card\<close>

text \<open>
  C3, the claim as stated fails: the state of a card added to the empty store is not the
  specification's initial state for a creation time of 1700000000000 ms (its \<open>dueAt\<close>
  is 0, and the add actions never read the clock).
\<close>

theorem new_card_state_counterexample:
  "reviewCardState
     (addGeneratedReviewCards [ConceptCard ''c1'' ''two-sum'' AI ''q'' ''a'' None] emptyStore) ''c1''
     \<noteq> Some (spec_initialCardState 1700000000000)"
  by (simp add: emptyStore_def addGeneratedReviewCards_def initialReviewState_def
        spec_initialCardState_def)

text \<open>
  C3, amended. Every card newly added to the store, from a generated batch or from the
  seed cards of the units (a card of the batch whose id no card of the store has), is in
  the card list afterwards and its state is \<open>phase = Learn\<close>, \<open>seenCount = 0\<close>,
  \<open>dueAt = 0\<close>, \<open>interval = 0\<close>, \<open>repetition = 0\<close>, \<open>efactor = 2.5\<close>, \<open>lapses = 0\<close>,
  no \<open>lastReviewedAt\<close>.
\<close>

theorem new_card_state:
  "(c \<in> set cards \<and> card_id c \<notin> card_id ` set (reviewCards state) \<longrightarrow>
      c \<in> set (reviewCards (addGeneratedReviewCards cards state)) \<and>
      reviewCardState (addGeneratedReviewCards cards state) (card_id c)
        = Some \<lparr> phase = Learn, seenCount = 0, dueAt = 0, interval = 0, repetition = 0,
                 efactor = 2.5, lapses = 0, lastReviewedAt = None \<rparr>) \<and>
   (c \<in> set (seedCardsFromUnits units) \<and> card_id c \<notin> card_id ` set (reviewCards state) \<longrightarrow>
      c \<in> set (reviewCards (ensureReviewCardsFromUnits units state)) \<and>
      reviewCardState (ensureReviewCardsFromUnits units state) (card_id c)
        = Some \<lparr> phase = Learn, seenCount = 0, dueAt = 0, interval = 0, repetition = 0,
                 efactor = 2.5, lapses = 0, lastReviewedAt = None \<rparr>)"
  by (auto simp add: ensure_as_add add_cards_list add_cards_states initialReviewState_def)

theorem new_card_state_witness:
  "ConceptCard ''f1'' ''two-sum'' Seed ''q'' ''a'' (Some [''Two Sum''])
     \<in> set (reviewCards
         (ensureReviewCardsFromUnits
            [\<lparr> title = ''Two Sum'', flashcards = Some [Flashcard ''f1'' ''two-sum'' ''q'' ''a''] \<rparr>]
            emptyStore)) \<and>
   reviewCardState
     (ensureReviewCardsFromUnits
        [\<lparr> title = ''Two Sum'', flashcards = Some [Flashcard ''f1'' ''two-sum'' ''q'' ''a''] \<rparr>]
        emptyStore) ''f1''
     = Some \<lparr> phase = Learn, seenCount = 0, dueAt = 0, interval = 0, repetition = 0,
              efactor = 2.5, lapses = 0, lastReviewedAt = None \<rparr> \<and>
   reviewCardState
     (addGeneratedReviewCards [ConceptCard ''c1'' ''two-sum'' AI ''q'' ''a'' None] emptyStore) ''c1''
     = Some \<lparr> phase = Learn, seenCount = 0, dueAt = 0, interval = 0, repetition = 0,
              efactor = 2.5, lapses = 0, lastReviewedAt = None \<rparr>"
  using new_card_state
          [where c = "ConceptCard ''f1'' ''two-sum'' Seed ''q'' ''a'' (Some [''Two Sum''])"
             and units = "[\<lparr> title = ''Two Sum'',
                             flashcards = Some [Flashcard ''f1'' ''two-sum'' ''q'' ''a''] \<rparr>]"
             and state = emptyStore and cards = "[]"]
        new_card_state
          [where c = "ConceptCard ''c1'' ''two-sum'' AI ''q'' ''a'' None"
             and cards = "[ConceptCard ''c1'' ''two-sum'' AI ''q'' ''a'' None]"
             and state = emptyStore and units = "[]"]
  by (simp add: seedCardsFromUnits_def emptyStore_def)

subsection \<open>Adding a card twice\<close>



section \<open>Grading\<close>

subsection \<open>What a grade does to the store\<close>

lemma prevState_record:
  "prevState (recordReviewResult cardId grade now state) cardId
     = nextReviewState (prevState state cardId) grade now"
  by (simp add: prevState_def recordReviewResult_def)

lemma prevState_record_other:
  "other \<noteq> cardId \<Longrightarrow>
     prevState (recordReviewResult cardId grade now state) other = prevState state other"
  by (simp add: prevState_def recordReviewResult_def)

lemma lookup_record:
  "reviewCardState (recordReviewResult cardId grade now state) cardId
     = Some (nextReviewState (prevState state cardId) grade now)"
  by (simp add: prevState_def recordReviewResult_def)

lemma recordReviewResults_snoc:
  "recordReviewResults cardId (gs @ [(g, now)]) state
     = recordReviewResult cardId g now (recordReviewResults cardId gs state)"
  by (induction gs arbitrary: state) auto

lemma learn_step_before:
  "phase s = Learn \<Longrightarrow> seenCount s + 1 < 10 \<Longrightarrow>
     phase (nextReviewState s g now) = Learn \<and>
     seenCount (nextReviewState s g now) = seenCount s + 1 \<and>
     dueAt (nextReviewState s g now) = now"
  by (simp add: nextReviewState_def Let_def)

lemma learn_step_graduate:
  "phase s = Learn \<Longrightarrow> seenCount s + 1 \<ge> 10 \<Longrightarrow>
     phase (nextReviewState s g now) = Review \<and>
     interval (nextReviewState s g now) = 1 \<and>
     repetition (nextReviewState s g now) = 1 \<and>
     dueAt (nextReviewState s g now) = now + 86400000"
  by (simp add: nextReviewState_def Let_def dayMs_def)

lemma learning_run:
  "phase (prevState state cardId) = Learn \<Longrightarrow>
   seenCount (prevState state cardId) + length gs < 10 \<Longrightarrow>
     phase (prevState (recordReviewResults cardId gs state) cardId) = Learn \<and>
     seenCount (prevState (recordReviewResults cardId gs state) cardId)
       = seenCount (prevState state cardId) + length gs"
proof (induction gs rule: rev_induct)
  case Nil
  then show ?case by simp
next
  case (snoc x gs)
  obtain g now where x: "x = (g, now)" by (cases x)
  from snoc have IH: "phase (prevState (recordReviewResults cardId gs state) cardId) = Learn"
     "seenCount (prevState (recordReviewResults cardId gs state) cardId)
       = seenCount (prevState state cardId) + length gs" by simp_all
  from snoc.prems IH have lt: "seenCount (prevState (recordReviewResults cardId gs state) cardId) + 1 < 10"
    by simp
  show ?case
    using learn_step_before[OF IH(1) lt, of g now] IH(2)
    by (simp add: x recordReviewResults_snoc prevState_record)
qed

subsection \<open>Graduation after ten grades\<close>

text \<open>
  C1. A card that starts in the learning phase with \<open>seenCount = 0\<close> (a card without a
  state is graded from the initial state, so it is covered) and is graded \<open>n\<close> times,
  \<open>1 \<le> n \<le> 10\<close>, with any grades at any clock values: after the tenth grade the card
  is in review with \<open>interval = 1\<close>, \<open>repetition = 1\<close> and \<open>dueAt\<close> one day
  (86400000 ms) after the clock of that grade; after fewer grades it is still learning
  and due at the clock of its last grade. The list \<open>gs\<close> holds all grades but the
  last, \<open>(g, now)\<close> is the last one.
\<close>

theorem graduation_after_ten_grades:
  assumes "phase (prevState state cardId) = Learn"
      and "seenCount (prevState state cardId) = 0"
      and "length gs < 10"
  shows "\<exists>s. reviewCardState (recordReviewResults cardId (gs @ [(g, now)]) state) cardId = Some s \<and>
           (if length gs = 9
            then phase s = Review \<and> interval s = 1 \<and> repetition s = 1 \<and> dueAt s = now + 86400000
            else phase s = Learn \<and> dueAt s = now)"
proof -
  let ?mid = "recordReviewResults cardId gs state"
  have run: "phase (prevState ?mid cardId) = Learn" "seenCount (prevState ?mid cardId) = length gs"
    using learning_run[of state cardId gs] assms by simp_all
  have look: "reviewCardState (recordReviewResults cardId (gs @ [(g, now)]) state) cardId
                = Some (nextReviewState (prevState ?mid cardId) g now)"
    by (simp only: recordReviewResults_snoc lookup_record)
  show ?thesis
  proof (cases "length gs = 9")
    case True
    then have "seenCount (prevState ?mid cardId) + 1 \<ge> 10" using run(2) by simp
    from learn_step_graduate[OF run(1) this, of g now] look True show ?thesis by simp
  next
    case False
    then have "seenCount (prevState ?mid cardId) + 1 < 10" using run(2) assms(3) by simp
    from learn_step_before[OF run(1) this, of g now] look False show ?thesis by simp
  qed
qed

theorem graduation_after_ten_grades_witness:
  "\<exists>s. reviewCardState
          (recordReviewResults ''c1'' (replicate 9 (Good, 1000) @ [(Again, 2000)])
             \<lparr> reviewCards = [ConceptCard ''c1'' ''two-sum'' Seed ''q'' ''a'' (Some [''Two Sum''])],
               reviewCardState = [''c1'' \<mapsto> initialReviewState] \<rparr>) ''c1'' = Some s \<and>
        phase s = Review \<and> interval s = 1 \<and> repetition s = 1 \<and> dueAt s = 86402000"
  using graduation_after_ten_grades
          [of "\<lparr> reviewCards = [ConceptCard ''c1'' ''two-sum'' Seed ''q'' ''a'' (Some [''Two Sum''])],
                 reviewCardState = [''c1'' \<mapsto> initialReviewState] \<rparr>"
              "''c1''" "replicate 9 (Good, 1000)" Again 2000]
  by (simp add: prevState_def initialReviewState_def)

subsection \<open>The grade is ignored while learning\<close>

text \<open>
  C10. While the graded card is in the learning phase, two different grades given at
  the same clock value produce the same store: the grade is not read on that path.
\<close>

theorem learning_ignores_grade:
  assumes "phase (prevState state cardId) = Learn"
  shows "recordReviewResult cardId g1 now state = recordReviewResult cardId g2 now state"
  using assms by (simp add: recordReviewResult_def prevState_def nextReviewState_def)

theorem learning_ignores_grade_witness:
  "recordReviewResult ''c1'' Again 5000 \<lparr> reviewCards = [], reviewCardState = [''c1'' \<mapsto> initialReviewState] \<rparr>
     = recordReviewResult ''c1'' Easy 5000 \<lparr> reviewCards = [], reviewCardState = [''c1'' \<mapsto> initialReviewState] \<rparr>"
  using learning_ignores_grade
          [where state = "\<lparr> reviewCards = [], reviewCardState = [''c1'' \<mapsto> initialReviewState] \<rparr>"
             and cardId = "''c1''" and now = 5000 and ?g1.0 = Again and ?g2.0 = Easy]
  by (simp add: prevState_def initialReviewState_def)

subsection \<open>The ease floor\<close>

lemma ease_step: "13 / 10 \<le> efactor s \<Longrightarrow> 13 / 10 \<le> efactor (nextReviewState s g now)"
  using fl_clamp_literal by (simp add: nextReviewState_def Let_def)

text \<open>
  C8. The ease factor never drops below 1.3: if the state a card is graded from has
  \<open>efactor \<ge> 1.3\<close> (the initial state has 2.5, and a card without a state is graded
  from the initial state), then after any sequence of grades of any cards, with any
  grades, the card's ease factor is still at least 1.3.
\<close>

theorem ease_floor:
  assumes "1.3 \<le> efactor (prevState state cardId)"
  shows "1.3 \<le> efactor (prevState (recordReviewEvents evs state) cardId)"
  using assms
proof (induction evs arbitrary: state)
  case Nil
  then show ?case by simp
next
  case (Cons ev evs)
  obtain c g now where ev: "ev = (c, g, now)" by (cases ev)
  have "1.3 \<le> efactor (prevState (recordReviewResult c g now state) cardId)"
  proof (cases "c = cardId")
    case True
    then show ?thesis using ease_step[of "prevState state cardId" g now] Cons.prems
      by (simp add: prevState_record)
  next
    case False
    then show ?thesis using Cons.prems by (simp add: prevState_record_other)
  qed
  from Cons.IH[OF this] show ?case by (simp add: ev)
qed

theorem ease_floor_witness:
  "1.3 \<le> efactor (prevState
      (recordReviewEvents (replicate 10 (''c1'', Good, 0) @ replicate 12 (''c1'', Again, 7))
         \<lparr> reviewCards = [], reviewCardState = [''c1'' \<mapsto> initialReviewState] \<rparr>) ''c1'')"
  using ease_floor
          [of "\<lparr> reviewCards = [], reviewCardState = [''c1'' \<mapsto> initialReviewState] \<rparr>" "''c1''"
              "replicate 10 (''c1'', Good, 0) @ replicate 12 (''c1'', Again, 7)"]
  by (simp add: prevState_def initialReviewState_def)

subsection \<open>Grading a card that has no state\<close>

text \<open>
  C2, the claim as stated fails: grading the id \<open>ghost\<close>, which has no state in the
  empty store, returns a store (nothing is thrown) that differs from the one before: it
  now holds a learning state with \<open>seenCount = 1\<close> for that id.
\<close>

theorem grading_missing_state_counterexample:
  "reviewCardState emptyStore ''ghost'' = None \<and>
   reviewCardState (recordReviewResult ''ghost'' Good 1000 emptyStore) ''ghost''
     = Some \<lparr> phase = Learn, seenCount = 1, dueAt = 1000, interval = 0, repetition = 0,
              efactor = 2.5, lapses = 0, lastReviewedAt = Some 1000 \<rparr> \<and>
   recordReviewResult ''ghost'' Good 1000 emptyStore \<noteq> emptyStore"
proof -
  have look: "reviewCardState (recordReviewResult ''ghost'' Good 1000 emptyStore) ''ghost''
     = Some \<lparr> phase = Learn, seenCount = 1, dueAt = 1000, interval = 0, repetition = 0,
              efactor = 2.5, lapses = 0, lastReviewedAt = Some 1000 \<rparr>"
    by (simp add: emptyStore_def recordReviewResult_def nextReviewState_def initialReviewState_def)
  have none: "reviewCardState emptyStore ''ghost'' = None"
    by (simp add: emptyStore_def)
  have "reviewCardState (recordReviewResult ''ghost'' Good 1000 emptyStore) ''ghost''
          \<noteq> reviewCardState emptyStore ''ghost''"
    by (simp only: look none) simp
  then have "recordReviewResult ''ghost'' Good 1000 emptyStore \<noteq> emptyStore" by metis
  with look none show ?thesis by simp
qed

text \<open>
  C2, amended. Grading a card id that has no state, and that is not the name of a
  property every JavaScript object inherits (\<open>constructor\<close>, \<open>toString\<close>, \<open>__proto__\<close>
  and the other names of \<open>objectPrototypeKeys\<close>), in a store without an entry for
  \<open>__proto__\<close>, does not fail: the missing state is read as the initial state, and the
  graded result (the initial state with \<open>seenCount = 1\<close>, \<open>dueAt = now\<close>,
  \<open>lastReviewedAt = now\<close>, whatever the grade) is stored under that id. The card list
  and the states of all other ids are unchanged.
\<close>

theorem grading_missing_state:
  assumes "reviewCardState state cardId = None"
      and "cardId \<notin> set objectPrototypeKeys"
      and "reviewCardState state ''__proto__'' = None"
  shows "recordReviewResult cardId grade now state
           = state\<lparr> reviewCardState := (reviewCardState state)
                (cardId \<mapsto> initialReviewState\<lparr> seenCount := 1, dueAt := now,
                                                   lastReviewedAt := Some now \<rparr>) \<rparr> \<and>
         reviewCards (recordReviewResult cardId grade now state) = reviewCards state \<and>
         (\<forall>other. other \<noteq> cardId \<longrightarrow>
            reviewCardState (recordReviewResult cardId grade now state) other
              = reviewCardState state other)"
  using assms(1) by (simp add: recordReviewResult_def nextReviewState_def initialReviewState_def)

theorem grading_missing_state_witness:
  "recordReviewResult ''ghost'' Hard 1000
     \<lparr> reviewCards = [], reviewCardState = [''c1'' \<mapsto> initialReviewState] \<rparr>
     = \<lparr> reviewCards = [],
         reviewCardState = [''c1'' \<mapsto> initialReviewState,
                            ''ghost'' \<mapsto> initialReviewState\<lparr> seenCount := 1, dueAt := 1000,
                                                                lastReviewedAt := Some 1000 \<rparr>] \<rparr> \<and>
   reviewCardState
     (recordReviewResult ''ghost'' Hard 1000
        \<lparr> reviewCards = [], reviewCardState = [''c1'' \<mapsto> initialReviewState] \<rparr>) ''c1''
     = Some initialReviewState"
  using grading_missing_state
          [where state = "\<lparr> reviewCards = [], reviewCardState = [''c1'' \<mapsto> initialReviewState] \<rparr>"
             and cardId = "''ghost''" and grade = Hard and now = 1000]
  by (simp add: objectPrototypeKeys_def)

subsection \<open>What every stored state satisfies\<close>

lemma next_interval_ge_one:
  "phase (nextReviewState s g now) = Learn \<or> 1 \<le> interval (nextReviewState s g now)"
  by (simp add: nextReviewState_def Let_def)

lemma next_efactor_ge_one:
  assumes "1 \<le> efactor s"
  shows "1 \<le> efactor (nextReviewState s g now)"
proof -
  have "(1::real) \<le> fl (13 / 10)" using fl_clamp_literal by linarith
  with assms show ?thesis by (simp add: nextReviewState_def Let_def)
qed

lemma next_due_positive:
  assumes "0 \<le> now"
  shows "phase (nextReviewState s g now) = Learn \<or> 0 < dueAt (nextReviewState s g now)"
proof (cases "phase s = Learn")
  case True
  with assms show ?thesis by (simp add: nextReviewState_def Let_def dayMs_def)
next
  case False
  have "0 < i * dayMs" if "1 \<le> i" for i :: int
    using that by (simp add: dayMs_def)
  with False assms show ?thesis
    by (simp add: nextReviewState_def Let_def add_nonneg_pos)
qed

text \<open>
  A property of single states that the initial state has and that a grade at an
  admissible clock value keeps holds of every state of the store after any run of
  actions, if it held of every state before.
\<close>

lemma run_invariant:
  assumes init: "P initialReviewState"
      and step: "\<And>s g now. P s \<Longrightarrow> ok now \<Longrightarrow> P (nextReviewState s g now)"
      and start: "\<forall>k st. reviewCardState state k = Some st \<longrightarrow> P st"
      and acts: "\<forall>a \<in> set acts. \<forall>k g now. a = RecordReviewResult k g now \<longrightarrow> ok now"
  shows "\<forall>k st. reviewCardState (applyActions acts state) k = Some st \<longrightarrow> P st"
  using start acts
proof (induction acts arbitrary: state)
  case Nil
  then show ?case by simp
next
  case (Cons a acts)
  have "\<forall>k st. reviewCardState (applyAction a state) k = Some st \<longrightarrow> P st"
  proof (cases a)
    case (EnsureReviewCardsFromUnits units)
    with Cons.prems(1) init show ?thesis
      by (auto simp add: ensure_as_add add_cards_states split: if_splits)
  next
    case (AddGeneratedReviewCards cards)
    with Cons.prems(1) init show ?thesis
      by (auto simp add: add_cards_states split: if_splits)
  next
    case (RecordReviewResult cardId g now)
    with Cons.prems(2) have ok: "ok now" by simp
    have "P (prevState state cardId)"
      using Cons.prems(1) init by (simp add: prevState_def split: option.splits)
    from step[OF this ok] have "P (nextReviewState (prevState state cardId) g now)" .
    with Cons.prems(1) RecordReviewResult show ?thesis
      by (auto simp add: recordReviewResult_def prevState_def)
  qed
  moreover from Cons.prems(2)
  have "\<forall>a \<in> set acts. \<forall>k g now. a = RecordReviewResult k g now \<longrightarrow> ok now" by simp
  ultimately show ?case using Cons.IH by simp
qed

subsection \<open>A graded review\<close>

text \<open>
  C4, the claim as stated fails: \<open>Hard\<close> is not a grade of quality 3 or more. A review
  card with \<open>interval = 6\<close>, \<open>repetition = 2\<close>, \<open>efactor = 2.5\<close> graded \<open>Hard\<close> (quality
  2) gets \<open>interval = 1\<close> and \<open>repetition = 0\<close>, not 15 and 3, and one more lapse.
\<close>

theorem review_pass_interval_counterexample:
  "qualityFromGrade Hard = 2 \<and>
   interval (nextReviewState
      \<lparr> phase = Review, seenCount = 10, dueAt = 0, interval = 6, repetition = 2,
        efactor = 2.5, lapses = 0, lastReviewedAt = None \<rparr> Hard 0) = 1 \<and>
   repetition (nextReviewState
      \<lparr> phase = Review, seenCount = 10, dueAt = 0, interval = 6, repetition = 2,
        efactor = 2.5, lapses = 0, lastReviewedAt = None \<rparr> Hard 0) = 0 \<and>
   lapses (nextReviewState
      \<lparr> phase = Review, seenCount = 10, dueAt = 0, interval = 6, repetition = 2,
        efactor = 2.5, lapses = 0, lastReviewedAt = None \<rparr> Hard 0) = 1"
  by (simp add: nextReviewState_def Let_def)

text \<open>
  C4, amended. Take any store whose states have an ease of at least 1 and, in review,
  an interval of at least 1 (the empty store, a store of fresh cards), run any review
  actions on it, and grade a card that is then in review (no entry of the store and no
  action naming an inherited property). If the quality is at least 3,
  which is \<open>Good\<close> or \<open>Easy\<close> only, the new interval is 1 if \<open>repetition = 0\<close>, 6 if
  \<open>repetition = 1\<close>, and otherwise \<open>round(interval * ease * bonus)\<close> in double arithmetic,
  the bonus being the double \<open>1.15\<close> exactly for \<open>Easy\<close> and 1 otherwise; \<open>repetition\<close>
  goes up by one and \<open>lapses\<close> stays. Otherwise the grade is \<open>Again\<close> or \<open>Hard\<close> (quality
  1 or 2): the interval is 1, \<open>repetition\<close> is 0, and \<open>lapses\<close> goes up by one.
\<close>

theorem review_pass_interval:
  assumes start: "\<forall>k st. reviewCardState start k = Some st \<longrightarrow>
                     k \<notin> set objectPrototypeKeys \<and>
                     1 \<le> efactor st \<and> (phase st = Learn \<or> 1 \<le> interval st)"
      and own: "\<forall>a \<in> set acts. ownKeysOnly a"
      and prev: "reviewCardState (applyActions acts start) cardId = Some prev"
      and review: "phase prev = Review"
  shows "\<exists>s. reviewCardState (recordReviewResult cardId grade now (applyActions acts start)) cardId
               = Some s \<and>
           (if 3 \<le> qualityFromGrade grade
            then (grade = Good \<or> grade = Easy) \<and>
                 interval s
                   = (if repetition prev = 0 then 1
                      else if repetition prev = 1 then 6
                      else Math_round (fl (fl (real_of_int (interval prev) * efactor prev)
                                             * (if grade = Easy then fl 1.15 else 1)))) \<and>
                 repetition s = repetition prev + 1 \<and>
                 lapses s = lapses prev
            else (grade = Again \<or> grade = Hard) \<and>
                 interval s = 1 \<and> repetition s = 0 \<and> lapses s = lapses prev + 1)"
proof -
  let ?P = "\<lambda>st. 1 \<le> efactor st \<and> (phase st = Learn \<or> 1 \<le> interval st)"
  have "\<forall>k st. reviewCardState (applyActions acts start) k = Some st \<longrightarrow> ?P st"
  proof (rule run_invariant[where P = ?P and ok = "\<lambda>now. True"])
    show "?P initialReviewState" by (simp add: initialReviewState_def)
    show "?P (nextReviewState s g now)" if "?P s" for s g now
      using that next_efactor_ge_one[of s g now] next_interval_ge_one[of s g now] by simp
    show "\<forall>k st. reviewCardState start k = Some st \<longrightarrow> ?P st" using start by blast
    show "\<forall>a \<in> set acts. \<forall>k g now. a = RecordReviewResult k g now \<longrightarrow> True" by simp
  qed
  with prev have "1 \<le> efactor prev \<and> (phase prev = Learn \<or> 1 \<le> interval prev)" by blast
  with review have e: "1 \<le> efactor prev" and i: "1 \<le> interval prev" by simp_all
  let ?bonus = "if grade = Easy then fl 1.15 else (1::real)"
  have b: "1 \<le> ?bonus" by (simp add: fl_ge_one)
  have "1 \<le> real_of_int (interval prev) * efactor prev"
    using e i by (metis mult_mono of_int_1_le_iff mult_1 zero_le_one order_trans)
  then have "1 \<le> fl (real_of_int (interval prev) * efactor prev)" by (rule fl_ge_one)
  with b have "1 \<le> fl (real_of_int (interval prev) * efactor prev) * ?bonus"
    by (metis mult_mono mult_1 zero_le_one order_trans)
  then have "1 \<le> fl (fl (real_of_int (interval prev) * efactor prev) * ?bonus)"
    by (rule fl_ge_one)
  then have r: "1 \<le> Math_round (fl (fl (real_of_int (interval prev) * efactor prev) * ?bonus))"
    by (simp add: Math_round_def le_floor_iff)
  have look: "reviewCardState (recordReviewResult cardId grade now (applyActions acts start)) cardId
                = Some (nextReviewState prev grade now)"
    using prev by (simp add: recordReviewResult_def)
  show ?thesis
  proof (cases grade)
    case Again
    with review look show ?thesis by (simp add: nextReviewState_def Let_def)
  next
    case Hard
    with review look show ?thesis by (simp add: nextReviewState_def Let_def)
  next
    case Good
    with review look r show ?thesis by (simp add: nextReviewState_def Let_def max_def)
  next
    case Easy
    with review look r show ?thesis by (simp add: nextReviewState_def Let_def max_def)
  qed
qed

text \<open>
  Two runs from the empty store, evaluated: a card seeded from a unit, graded ten times
  (it graduates) and then \<open>Good\<close> once; and the same card graded ten times, then
  \<open>Hard\<close>, \<open>Hard\<close>, \<open>Easy\<close>, \<open>Easy\<close>, \<open>Good\<close>, \<open>Good\<close>.
\<close>

lemma run_to_second_review:
  "reviewCardState
     (applyActions
        (EnsureReviewCardsFromUnits
           [\<lparr> title = ''Two Sum'', flashcards = Some [Flashcard ''f1'' ''two-sum'' ''q'' ''a''] \<rparr>]
         # replicate 10 (RecordReviewResult ''f1'' Good 1000)
         @ [RecordReviewResult ''f1'' Good 2000])
        emptyStore) ''f1''
   = Some \<lparr> phase = Review, seenCount = 10, dueAt = 518402000, interval = 6, repetition = 2,
            efactor = 5 / 2, lapses = 0, lastReviewedAt = Some 2000 \<rparr>"
  by code_simp

lemma run_with_lapses:
  "reviewCardState
     (applyActions
        (EnsureReviewCardsFromUnits
           [\<lparr> title = ''Two Sum'', flashcards = Some [Flashcard ''f1'' ''two-sum'' ''q'' ''a''] \<rparr>]
         # replicate 10 (RecordReviewResult ''f1'' Good 1000)
         @ [RecordReviewResult ''f1'' Hard 2000, RecordReviewResult ''f1'' Hard 3000,
            RecordReviewResult ''f1'' Easy 4000, RecordReviewResult ''f1'' Easy 5000,
            RecordReviewResult ''f1'' Good 6000, RecordReviewResult ''f1'' Good 7000])
        emptyStore) ''f1''
   = Some \<lparr> phase = Review, seenCount = 10, dueAt = 2160007000, interval = 25, repetition = 4,
            efactor = 2319353808095805 / 1125899906842624, lapses = 2,
            lastReviewedAt = Some 7000 \<rparr>"
  by code_simp

lemma round_scenario:
  "Math_round
     (fl (fl (real_of_int
                (interval \<lparr> phase = Review, seenCount = 10, dueAt = 518402000, interval = 6,
                            repetition = 2, efactor = 5 / 2, lapses = 0,
                            lastReviewedAt = Some 2000 \<rparr>)
              * efactor \<lparr> phase = Review, seenCount = 10, dueAt = 518402000, interval = 6,
                          repetition = 2, efactor = 5 / 2, lapses = 0,
                          lastReviewedAt = Some 2000 \<rparr>)
          * (if Good = Easy then fl 1.15 else 1))) = 15"
  by code_simp

lemma round_after_lapses:
  "Math_round
     (fl (fl (real_of_int
                (interval \<lparr> phase = Review, seenCount = 10, dueAt = 2160007000, interval = 25,
                            repetition = 4, efactor = 2319353808095805 / 1125899906842624,
                            lapses = 2, lastReviewedAt = Some 7000 \<rparr>)
              * efactor \<lparr> phase = Review, seenCount = 10, dueAt = 2160007000, interval = 25,
                          repetition = 4, efactor = 2319353808095805 / 1125899906842624,
                          lapses = 2, lastReviewedAt = Some 7000 \<rparr>)
          * (if Good = Easy then fl 1.15 else 1))) = 51"
  by code_simp

text \<open>
  The scenario (\<open>interval = 6\<close>, \<open>repetition = 2\<close>, \<open>efactor = 2.5\<close>, graded \<open>Good\<close>:
  interval 15, repetition 3), reached from the empty store; and the second run graded
  \<open>Good\<close>: the ease is the double 2.0599999999999996, the product rounds to 51.
\<close>

theorem review_pass_interval_witness:
  "(\<exists>s. reviewCardState
           (recordReviewResult ''f1'' Good 3000
              (applyActions
                 (EnsureReviewCardsFromUnits
                    [\<lparr> title = ''Two Sum'',
                       flashcards = Some [Flashcard ''f1'' ''two-sum'' ''q'' ''a''] \<rparr>]
                  # replicate 10 (RecordReviewResult ''f1'' Good 1000)
                  @ [RecordReviewResult ''f1'' Good 2000])
                 emptyStore)) ''f1'' = Some s \<and>
         interval s = 15 \<and> repetition s = 3 \<and> lapses s = 0) \<and>
   (\<exists>s. reviewCardState
           (recordReviewResult ''f1'' Good 8000
              (applyActions
                 (EnsureReviewCardsFromUnits
                    [\<lparr> title = ''Two Sum'',
                       flashcards = Some [Flashcard ''f1'' ''two-sum'' ''q'' ''a''] \<rparr>]
                  # replicate 10 (RecordReviewResult ''f1'' Good 1000)
                  @ [RecordReviewResult ''f1'' Hard 2000, RecordReviewResult ''f1'' Hard 3000,
                     RecordReviewResult ''f1'' Easy 4000, RecordReviewResult ''f1'' Easy 5000,
                     RecordReviewResult ''f1'' Good 6000, RecordReviewResult ''f1'' Good 7000])
                 emptyStore)) ''f1'' = Some s \<and>
         interval s = 51 \<and> repetition s = 5 \<and> lapses s = 2)"
proof -
  have start: "\<forall>k st. reviewCardState emptyStore k = Some st \<longrightarrow>
                 k \<notin> set objectPrototypeKeys \<and>
                 1 \<le> efactor st \<and> (phase st = Learn \<or> 1 \<le> interval st)"
    by (simp add: emptyStore_def)
  have own1: "\<forall>a \<in> set (EnsureReviewCardsFromUnits
                    [\<lparr> title = ''Two Sum'',
                       flashcards = Some [Flashcard ''f1'' ''two-sum'' ''q'' ''a''] \<rparr>]
                  # replicate 10 (RecordReviewResult ''f1'' Good 1000)
                  @ [RecordReviewResult ''f1'' Good 2000]). ownKeysOnly a"
    by (auto simp add: seedCardsFromUnits_def objectPrototypeKeys_def)
  have own2: "\<forall>a \<in> set (EnsureReviewCardsFromUnits
                    [\<lparr> title = ''Two Sum'',
                       flashcards = Some [Flashcard ''f1'' ''two-sum'' ''q'' ''a''] \<rparr>]
                  # replicate 10 (RecordReviewResult ''f1'' Good 1000)
                  @ [RecordReviewResult ''f1'' Hard 2000, RecordReviewResult ''f1'' Hard 3000,
                     RecordReviewResult ''f1'' Easy 4000, RecordReviewResult ''f1'' Easy 5000,
                     RecordReviewResult ''f1'' Good 6000, RecordReviewResult ''f1'' Good 7000]).
                ownKeysOnly a"
    by (auto simp add: seedCardsFromUnits_def objectPrototypeKeys_def)
  have one: "\<exists>s. reviewCardState
           (recordReviewResult ''f1'' Good 3000
              (applyActions
                 (EnsureReviewCardsFromUnits
                    [\<lparr> title = ''Two Sum'',
                       flashcards = Some [Flashcard ''f1'' ''two-sum'' ''q'' ''a''] \<rparr>]
                  # replicate 10 (RecordReviewResult ''f1'' Good 1000)
                  @ [RecordReviewResult ''f1'' Good 2000])
                 emptyStore)) ''f1'' = Some s \<and>
         interval s = 15 \<and> repetition s = 3 \<and> lapses s = 0"
    using review_pass_interval
            [OF start own1 run_to_second_review, of Good 3000, unfolded round_scenario]
    by simp
  have two: "\<exists>s. reviewCardState
           (recordReviewResult ''f1'' Good 8000
              (applyActions
                 (EnsureReviewCardsFromUnits
                    [\<lparr> title = ''Two Sum'',
                       flashcards = Some [Flashcard ''f1'' ''two-sum'' ''q'' ''a''] \<rparr>]
                  # replicate 10 (RecordReviewResult ''f1'' Good 1000)
                  @ [RecordReviewResult ''f1'' Hard 2000, RecordReviewResult ''f1'' Hard 3000,
                     RecordReviewResult ''f1'' Easy 4000, RecordReviewResult ''f1'' Easy 5000,
                     RecordReviewResult ''f1'' Good 6000, RecordReviewResult ''f1'' Good 7000])
                 emptyStore)) ''f1'' = Some s \<and>
         interval s = 51 \<and> repetition s = 5 \<and> lapses s = 2"
    using review_pass_interval
            [OF start own2 run_with_lapses, of Good 8000, unfolded round_after_lapses]
    by simp
  from one two show ?thesis by (rule conjI)
qed

section \<open>Selecting the next card\<close>

subsection \<open>The minimum and the random index\<close>

lemma min_list_member: "xs \<noteq> [] \<Longrightarrow> min_list xs \<in> set xs" for xs :: "nat list"
  by (simp add: min_list_Min)

lemma min_list_lower: "x \<in> set xs \<Longrightarrow> min_list xs \<le> x" for xs :: "nat list"
  by (cases "xs = []") (simp_all add: min_list_Min)

lemma random_index_in_range:
  assumes "0 \<le> r" and "r < 1" and "0 < n"
  shows "0 \<le> \<lfloor>r * real n\<rfloor> \<and> \<lfloor>r * real n\<rfloor> < int n"
proof -
  have "0 \<le> r * real n" using assms by simp
  then have lo: "0 \<le> \<lfloor>r * real n\<rfloor>" by simp
  have "r * real n < 1 * real n" using assms by (intro mult_strict_right_mono) simp_all
  then have "r * real n < real_of_int (int n)" by simp
  then have "\<lfloor>r * real n\<rfloor> < int n" by (simp only: floor_less_iff)
  with lo show ?thesis by simp
qed

lemma drawWeighted_member: "drawWeighted rand ws = Some c \<Longrightarrow> c \<in> fst ` set ws"
  by (induction rand ws rule: drawWeighted.induct) (auto simp add: Let_def split: if_splits)

lemma weightedRandom_member:
  assumes "cards \<noteq> []"
  shows "\<exists>c \<in> set cards. weightedRandomByOverdue cards stateById now r = Inr c"
proof (cases "drawWeighted (r * foldl (\<lambda>acc item. acc + snd item) 0
                 (map (\<lambda>c. (c, cardWeight now stateById c)) cards))
               (map (\<lambda>c. (c, cardWeight now stateById c)) cards)")
  case None
  from assms obtain c rest where "cards = c # rest" by (cases cards) auto
  with None show ?thesis by (simp add: weightedRandomByOverdue_def Let_def)
next
  case (Some c)
  from drawWeighted_member[OF Some] have "c \<in> set cards" by (auto simp add: image_iff)
  with Some show ?thesis by (simp add: weightedRandomByOverdue_def Let_def)
qed

lemma learning_pick:
  assumes "0 \<le> r" and "r < 1" and "filter (isLearning stateById) cards \<noteq> []"
  shows "\<exists>c. getNextCard cards stateById now now2 r = Inr (Some c) \<and>
             c \<in> set cards \<and> isLearning stateById c \<and>
             seenOf stateById c = min_list (map (seenOf stateById) (filter (isLearning stateById) cards))"
proof -
  let ?pool = "filter (isLearning stateById) cards"
  let ?m = "min_list (map (seenOf stateById) ?pool)"
  let ?bucket = "filter (\<lambda>c. seenOf stateById c = ?m) ?pool"
  let ?i = "\<lfloor>r * real (length ?bucket)\<rfloor>"
  have "?m \<in> set (map (seenOf stateById) ?pool)"
    using assms(3) by (intro min_list_member) simp
  then have "?bucket \<noteq> []" by (auto simp add: filter_empty_conv)
  then have "0 < length ?bucket" by simp
  from random_index_in_range[OF assms(1,2) this]
  have rng: "0 \<le> ?i" "?i < int (length ?bucket)" by simp_all
  then have "nat ?i < length ?bucket" by linarith
  then have mem: "?bucket ! nat ?i \<in> set ?bucket" by (rule nth_mem)
  have res: "getNextCard cards stateById now now2 r = Inr (Some (?bucket ! nat ?i))"
    using assms(3) rng by (simp add: getNextCard_def Let_def)
  from mem have "?bucket ! nat ?i \<in> set cards" "isLearning stateById (?bucket ! nat ?i)"
    "seenOf stateById (?bucket ! nat ?i) = ?m" by auto
  with res show ?thesis by blast
qed

lemma due_pick:
  assumes "filter (isLearning stateById) cards = []" and "filter (isDue stateById now) cards \<noteq> []"
  shows "\<exists>c. getNextCard cards stateById now now2 r = Inr (Some c) \<and>
             c \<in> set cards \<and> isDue stateById now c"
proof -
  from weightedRandom_member[OF assms(2), of stateById now2 r]
  obtain c where c: "c \<in> set (filter (isDue stateById now) cards)"
    "weightedRandomByOverdue (filter (isDue stateById now) cards) stateById now2 r = Inr c"
    by blast
  then have "getNextCard cards stateById now now2 r = Inr (Some c)"
    using assms by (simp add: getNextCard_def Let_def)
  with c(1) show ?thesis by auto
qed

lemma no_pick:
  assumes "filter (isLearning stateById) cards = []" and "filter (isDue stateById now) cards = []"
  shows "getNextCard cards stateById now now2 r = Inr None"
  using assms by (simp add: getNextCard_def Let_def)

subsection \<open>When there is no card to show\<close>

text \<open>
  C5. With \<open>Math.random()\<close> in \<open>[0, 1)\<close>, \<open>getNextCard\<close> returns \<open>null\<close> exactly when
  both pools are empty: no card has a state with \<open>phase = Learn\<close> and \<open>seenCount < 10\<close>,
  and no card has a state with \<open>phase = Review\<close> and \<open>dueAt \<le> now\<close>. Any card it returns
  is one of the given cards and its state is of one of these two kinds, so a review card
  with \<open>dueAt > now\<close> is never returned (and does not stand in the way of \<open>null\<close>); it
  never throws.
\<close>

theorem null_iff_pools_empty:
  assumes "0 \<le> random" and "random < 1"
  shows "(getNextCard cards stateById now now2 random = Inr None)
           = (\<not> (\<exists>c \<in> set cards. \<exists>st. stateById (card_id c) = Some st \<and>
                     phase st = Learn \<and> seenCount st < 10) \<and>
              \<not> (\<exists>c \<in> set cards. \<exists>st. stateById (card_id c) = Some st \<and>
                     phase st = Review \<and> dueAt st \<le> now)) \<and>
         (\<forall>c. getNextCard cards stateById now now2 random = Inr (Some c) \<longrightarrow>
              c \<in> set cards \<and>
              (\<exists>st. stateById (card_id c) = Some st \<and>
                 (phase st = Learn \<and> seenCount st < 10 \<or> phase st = Review \<and> dueAt st \<le> now))) \<and>
         getNextCard cards stateById now now2 random \<noteq> Inl TypeError"
proof -
  have L: "isLearning stateById c
             = (\<exists>st. stateById (card_id c) = Some st \<and> phase st = Learn \<and> seenCount st < 10)" for c
    by (simp add: isLearning_def split: option.splits)
  have D: "isDue stateById now c
             = (\<exists>st. stateById (card_id c) = Some st \<and> phase st = Review \<and> dueAt st \<le> now)" for c
    by (simp add: isDue_def split: option.splits)
  consider (learn) "filter (isLearning stateById) cards \<noteq> []"
    | (due) "filter (isLearning stateById) cards = []" "filter (isDue stateById now) cards \<noteq> []"
    | (none) "filter (isLearning stateById) cards = []" "filter (isDue stateById now) cards = []"
    by blast
  then show ?thesis
  proof cases
    case learn
    from learning_pick[OF assms learn, of now now2]
    obtain c where c: "getNextCard cards stateById now now2 random = Inr (Some c)"
      "c \<in> set cards" "isLearning stateById c" by blast
    from c(2,3) have "\<exists>c \<in> set cards. \<exists>st. stateById (card_id c) = Some st \<and>
                        phase st = Learn \<and> seenCount st < 10"
      using L by blast
    moreover from c(3) have "\<exists>st. stateById (card_id c) = Some st \<and>
        (phase st = Learn \<and> seenCount st < 10 \<or> phase st = Review \<and> dueAt st \<le> now)"
      using L by blast
    ultimately show ?thesis using c(1,2) by simp
  next
    case due
    from due_pick[OF due, of now2 random]
    obtain c where c: "getNextCard cards stateById now now2 random = Inr (Some c)"
      "c \<in> set cards" "isDue stateById now c" by blast
    from c(2,3) have "\<exists>c \<in> set cards. \<exists>st. stateById (card_id c) = Some st \<and>
                        phase st = Review \<and> dueAt st \<le> now"
      using D by blast
    moreover from c(3) have "\<exists>st. stateById (card_id c) = Some st \<and>
        (phase st = Learn \<and> seenCount st < 10 \<or> phase st = Review \<and> dueAt st \<le> now)"
      using D by blast
    ultimately show ?thesis using c(1,2) by simp
  next
    case none
    from none(1) have "\<not> (\<exists>c \<in> set cards. \<exists>st. stateById (card_id c) = Some st \<and>
                          phase st = Learn \<and> seenCount st < 10)"
      using L by (simp add: filter_empty_conv)
    moreover from none(2) have "\<not> (\<exists>c \<in> set cards. \<exists>st. stateById (card_id c) = Some st \<and>
                          phase st = Review \<and> dueAt st \<le> now)"
      using D by (simp add: filter_empty_conv)
    ultimately show ?thesis using no_pick[OF none, of now2 random] by simp
  qed
qed

text \<open>
  Three runs of the selection at the clock 4000. A review card due at 5000 and a card
  that is still marked learning with \<open>seenCount = 10\<close>: \<open>null\<close>. The same two cards
  with the review card due at 3000: that card. The card marked learning with
  \<open>seenCount = 10\<close> and a fresh one: the fresh one.
\<close>

theorem null_iff_pools_empty_witness:
  "getNextCard [ConceptCard ''c1'' ''two-sum'' Seed ''q1'' ''a1'' None,
                ConceptCard ''c2'' ''two-sum'' Seed ''q2'' ''a2'' None]
     [''c1'' \<mapsto> \<lparr> phase = Review, seenCount = 10, dueAt = 5000, interval = 1, repetition = 1,
                  efactor = 2.5, lapses = 0, lastReviewedAt = None \<rparr>,
      ''c2'' \<mapsto> \<lparr> phase = Learn, seenCount = 10, dueAt = 0, interval = 0, repetition = 0,
                  efactor = 2.5, lapses = 0, lastReviewedAt = None \<rparr>]
     4000 4001 (1 / 2) = Inr None \<and>
   getNextCard [ConceptCard ''c1'' ''two-sum'' Seed ''q1'' ''a1'' None,
                ConceptCard ''c2'' ''two-sum'' Seed ''q2'' ''a2'' None]
     [''c1'' \<mapsto> \<lparr> phase = Review, seenCount = 10, dueAt = 3000, interval = 1, repetition = 1,
                  efactor = 2.5, lapses = 0, lastReviewedAt = None \<rparr>,
      ''c2'' \<mapsto> \<lparr> phase = Learn, seenCount = 10, dueAt = 0, interval = 0, repetition = 0,
                  efactor = 2.5, lapses = 0, lastReviewedAt = None \<rparr>]
     4000 4001 (1 / 2) = Inr (Some (ConceptCard ''c1'' ''two-sum'' Seed ''q1'' ''a1'' None)) \<and>
   getNextCard [ConceptCard ''c2'' ''two-sum'' Seed ''q2'' ''a2'' None,
                ConceptCard ''c3'' ''two-sum'' Seed ''q3'' ''a3'' None]
     [''c2'' \<mapsto> \<lparr> phase = Learn, seenCount = 10, dueAt = 0, interval = 0, repetition = 0,
                  efactor = 2.5, lapses = 0, lastReviewedAt = None \<rparr>,
      ''c3'' \<mapsto> initialReviewState]
     4000 4001 (1 / 2) = Inr (Some (ConceptCard ''c3'' ''two-sum'' Seed ''q3'' ''a3'' None))"
proof -
  have r: "(0::real) \<le> 1 / 2" "(1 / 2 :: real) < 1" by simp_all
  let ?c1 = "ConceptCard ''c1'' ''two-sum'' Seed ''q1'' ''a1'' None"
  let ?c2 = "ConceptCard ''c2'' ''two-sum'' Seed ''q2'' ''a2'' None"
  let ?c3 = "ConceptCard ''c3'' ''two-sum'' Seed ''q3'' ''a3'' None"
  let ?future = "[''c1'' \<mapsto> \<lparr> phase = Review, seenCount = 10, dueAt = 5000, interval = 1,
                  repetition = 1, efactor = 2.5, lapses = 0, lastReviewedAt = None \<rparr>,
      ''c2'' \<mapsto> \<lparr> phase = Learn, seenCount = 10, dueAt = 0, interval = 0, repetition = 0,
                  efactor = 2.5, lapses = 0, lastReviewedAt = None \<rparr>]"
  let ?due = "[''c1'' \<mapsto> \<lparr> phase = Review, seenCount = 10, dueAt = 3000, interval = 1,
                  repetition = 1, efactor = 2.5, lapses = 0, lastReviewedAt = None \<rparr>,
      ''c2'' \<mapsto> \<lparr> phase = Learn, seenCount = 10, dueAt = 0, interval = 0, repetition = 0,
                  efactor = 2.5, lapses = 0, lastReviewedAt = None \<rparr>]"
  let ?fresh = "[''c2'' \<mapsto> \<lparr> phase = Learn, seenCount = 10, dueAt = 0, interval = 0,
                  repetition = 0, efactor = 2.5, lapses = 0, lastReviewedAt = None \<rparr>,
      ''c3'' \<mapsto> initialReviewState]"
  have a: "getNextCard [?c1, ?c2] ?future 4000 4001 (1 / 2) = Inr None"
    using null_iff_pools_empty[OF r, of "[?c1, ?c2]" ?future 4000 4001] by simp
  have b: "getNextCard [?c1, ?c2] ?due 4000 4001 (1 / 2) = Inr (Some ?c1)"
  proof -
    from null_iff_pools_empty[OF r, of "[?c1, ?c2]" ?due 4000 4001]
    have nonnull: "getNextCard [?c1, ?c2] ?due 4000 4001 (1 / 2) \<noteq> Inr None"
      and ret: "\<And>c. getNextCard [?c1, ?c2] ?due 4000 4001 (1 / 2) = Inr (Some c) \<Longrightarrow>
                  c \<in> set [?c1, ?c2] \<and>
                  (\<exists>st. ?due (card_id c) = Some st \<and>
                     (phase st = Learn \<and> seenCount st < 10 \<or> phase st = Review \<and> dueAt st \<le> 4000))"
      and noerr: "getNextCard [?c1, ?c2] ?due 4000 4001 (1 / 2) \<noteq> Inl TypeError"
      by simp_all
    from nonnull noerr obtain c where c: "getNextCard [?c1, ?c2] ?due 4000 4001 (1 / 2) = Inr (Some c)"
      by (cases "getNextCard [?c1, ?c2] ?due 4000 4001 (1 / 2)") (auto intro: error.exhaust)
    from ret[OF c] have "c = ?c1" by (auto split: if_splits)
    with c show ?thesis by simp
  qed
  have c: "getNextCard [?c2, ?c3] ?fresh 4000 4001 (1 / 2) = Inr (Some ?c3)"
  proof -
    from null_iff_pools_empty[OF r, of "[?c2, ?c3]" ?fresh 4000 4001]
    have nonnull: "getNextCard [?c2, ?c3] ?fresh 4000 4001 (1 / 2) \<noteq> Inr None"
      and ret: "\<And>c. getNextCard [?c2, ?c3] ?fresh 4000 4001 (1 / 2) = Inr (Some c) \<Longrightarrow>
                  c \<in> set [?c2, ?c3] \<and>
                  (\<exists>st. ?fresh (card_id c) = Some st \<and>
                     (phase st = Learn \<and> seenCount st < 10 \<or> phase st = Review \<and> dueAt st \<le> 4000))"
      and noerr: "getNextCard [?c2, ?c3] ?fresh 4000 4001 (1 / 2) \<noteq> Inl TypeError"
      by (simp_all add: initialReviewState_def)
    from nonnull noerr obtain c where c: "getNextCard [?c2, ?c3] ?fresh 4000 4001 (1 / 2) = Inr (Some c)"
      by (cases "getNextCard [?c2, ?c3] ?fresh 4000 4001 (1 / 2)") (auto intro: error.exhaust)
    from ret[OF c] have "c = ?c3" by (auto split: if_splits)
    with c show ?thesis by simp
  qed
  from a b c show ?thesis by simp
qed

subsection \<open>The least seen learning cards come first\<close>

text \<open>
  C6. Whenever some card is learning with \<open>seenCount < 10\<close>, \<open>getNextCard\<close> returns,
  for every value of \<open>Math.random()\<close> in \<open>[0, 1)\<close>, a card of that pool whose
  \<open>seenCount\<close> is the least of the pool: no learning card of the pool has a smaller one.
\<close>

theorem least_seen_first:
  assumes "0 \<le> random" and "random < 1"
      and "\<exists>c \<in> set cards. isLearning stateById c"
  shows "\<exists>c st. getNextCard cards stateById now now2 random = Inr (Some c) \<and>
           c \<in> set cards \<and> stateById (card_id c) = Some st \<and>
           phase st = Learn \<and> seenCount st < 10 \<and>
           (\<forall>c' \<in> set cards. \<forall>st'. stateById (card_id c') = Some st' \<and> phase st' = Learn \<and>
                seenCount st' < 10 \<longrightarrow> seenCount st \<le> seenCount st')"
proof -
  let ?pool = "filter (isLearning stateById) cards"
  from assms(3) have ne: "?pool \<noteq> []" by (simp add: filter_empty_conv)
  from learning_pick[OF assms(1,2) ne, of now now2]
  obtain c where c: "getNextCard cards stateById now now2 random = Inr (Some c)"
    "c \<in> set cards" "isLearning stateById c"
    "seenOf stateById c = min_list (map (seenOf stateById) ?pool)" by blast
  from c(3) obtain st where st: "stateById (card_id c) = Some st" "phase st = Learn" "seenCount st < 10"
    by (auto simp add: isLearning_def split: option.splits)
  have "seenCount st \<le> seenCount st'"
    if "c' \<in> set cards" "stateById (card_id c') = Some st'" "phase st' = Learn" "seenCount st' < 10"
    for c' st'
  proof -
    from that have "c' \<in> set ?pool" by (simp add: isLearning_def)
    then have "seenOf stateById c' \<in> set (map (seenOf stateById) ?pool)" by simp
    from min_list_lower[OF this] c(4) have "seenOf stateById c \<le> seenOf stateById c'" by simp
    with st(1) that(2) show ?thesis by (simp add: seenOf_def)
  qed
  with c(1,2) st show ?thesis by blast
qed

theorem least_seen_first_witness:
  "\<exists>c st. getNextCard [ConceptCard ''c1'' ''two-sum'' Seed ''q1'' ''a1'' None,
                       ConceptCard ''c2'' ''two-sum'' Seed ''q2'' ''a2'' None,
                       ConceptCard ''c3'' ''two-sum'' Seed ''q3'' ''a3'' None]
            [''c1'' \<mapsto> initialReviewState\<lparr> seenCount := 3 \<rparr>,
             ''c2'' \<mapsto> initialReviewState,
             ''c3'' \<mapsto> initialReviewState] 4000 4001 (7 / 10) = Inr (Some c) \<and>
          [''c1'' \<mapsto> initialReviewState\<lparr> seenCount := 3 \<rparr>,
             ''c2'' \<mapsto> initialReviewState,
             ''c3'' \<mapsto> initialReviewState] (card_id c) = Some st \<and>
          seenCount st = 0"
proof -
  let ?cards = "[ConceptCard ''c1'' ''two-sum'' Seed ''q1'' ''a1'' None,
                       ConceptCard ''c2'' ''two-sum'' Seed ''q2'' ''a2'' None,
                       ConceptCard ''c3'' ''two-sum'' Seed ''q3'' ''a3'' None]"
  let ?states = "[''c1'' \<mapsto> initialReviewState\<lparr> seenCount := 3 \<rparr>,
             ''c2'' \<mapsto> initialReviewState,
             ''c3'' \<mapsto> initialReviewState]"
  have r: "(0::real) \<le> 7 / 10" "(7 / 10 :: real) < 1" by simp_all
  have pool: "\<exists>c \<in> set ?cards. isLearning ?states c"
    by (simp add: isLearning_def initialReviewState_def)
  from least_seen_first[OF r pool, of 4000 4001]
  obtain c st where c: "getNextCard ?cards ?states 4000 4001 (7 / 10) = Inr (Some c)"
    "?states (card_id c) = Some st"
    "\<forall>c' \<in> set ?cards. \<forall>st'. ?states (card_id c') = Some st' \<and> phase st' = Learn \<and>
                seenCount st' < 10 \<longrightarrow> seenCount st \<le> seenCount st'"
    by blast
  from c(3) have "seenCount st \<le> seenCount initialReviewState"
    by (simp add: initialReviewState_def)
  then have "seenCount st = 0" by (simp add: initialReviewState_def)
  with c(1,2) show ?thesis by blast
qed

subsection \<open>The weights of due cards\<close>

lemma total_weight:
  "foldl (\<lambda>acc item. acc + snd item) a ws = a + sum_list (map snd ws)" for a :: real
  by (induction ws arbitrary: a) simp_all

lemma drawWeighted_hits:
  assumes "\<forall>w \<in> snd ` set pre. 0 \<le> w" and "0 < x" and "x \<le> w"
  shows "drawWeighted (sum_list (map snd pre) + x) (pre @ (c, w) # post) = Some c"
  using assms
proof (induction pre)
  case Nil
  then show ?case by simp
next
  case (Cons p pre)
  obtain d v where p: "p = (d, v)" by (cases p)
  from Cons.prems have nonneg: "0 \<le> sum_list (map snd pre)"
    by (intro sum_list_nonneg) auto
  with Cons.prems have "\<not> (sum_list (map snd pre) + x \<le> 0)" by simp
  moreover have "drawWeighted (sum_list (map snd pre) + x) (pre @ (c, w) # post) = Some c"
    using Cons by simp
  ultimately show ?case by (simp add: p)
qed

lemma cardWeight_formula:
  assumes "stateById (card_id c) = Some st" and "dueAt st \<noteq> 0"
  shows "cardWeight now stateById c
           = 1 + max 0 (real_of_int (now - dueAt st) / 86400000) + real (lapses st) * 0.5"
  using assms by (simp add: cardWeight_def)

lemma cardWeight_at_least_one: "1 \<le> cardWeight now stateById c"
  by (simp add: cardWeight_def Let_def)

lemma every_card_can_be_drawn:
  assumes "c \<in> set cards"
  shows "\<exists>r. 0 \<le> r \<and> r < 1 \<and> weightedRandomByOverdue cards stateById now r = Inr c"
proof -
  let ?f = "\<lambda>c. (c, cardWeight now stateById c)"
  from assms obtain pre post where split: "cards = pre @ c # post"
    by (auto simp add: in_set_conv_decomp)
  let ?w = "cardWeight now stateById c"
  let ?S = "sum_list (map snd (map ?f pre))"
  let ?T = "sum_list (map snd (map ?f post))"
  let ?total = "foldl (\<lambda>acc item. acc + snd item) 0 (map ?f cards)"
  have w: "1 \<le> ?w" by (rule cardWeight_at_least_one)
  have S: "0 \<le> ?S" by (intro sum_list_nonneg) (auto intro: order_trans[OF _ cardWeight_at_least_one])
  have T: "0 \<le> ?T" by (intro sum_list_nonneg) (auto intro: order_trans[OF _ cardWeight_at_least_one])
  have total: "?total = ?S + ?w + ?T" by (simp add: total_weight split)
  with w S T have pos: "0 < ?total" by linarith
  let ?x = "?S + ?w / 2"
  let ?r = "?x / ?total"
  have r0: "0 \<le> ?r" using S w pos by simp
  have "?x < ?total" using total w T by linarith
  then have r1: "?r < 1" using pos by simp
  have rt: "?r * ?total = ?x" using pos by simp
  have pre_nonneg: "\<forall>v \<in> snd ` set (map ?f pre). 0 \<le> v"
    by (auto intro: order_trans[OF _ cardWeight_at_least_one])
  have "drawWeighted ?x (map ?f pre @ (c, ?w) # map ?f post) = Some c"
    by (rule drawWeighted_hits[OF pre_nonneg]) (use w in simp_all)
  then have "drawWeighted (?r * ?total) (map ?f cards) = Some c"
    by (simp only: rt) (simp add: split)
  then have "weightedRandomByOverdue cards stateById now ?r = Inr c"
    by (simp add: weightedRandomByOverdue_def Let_def)
  with r0 r1 show ?thesis by blast
qed

lemma clock_ok_cases:
  assumes "\<forall>a \<in> set acts. clockNonNegative a"
  shows "\<forall>a \<in> set acts. \<forall>k g now. a = RecordReviewResult k g now \<longrightarrow> 0 \<le> now"
  using assms by auto

text \<open>Two cards seeded from a unit; the first graduates at the clock 1000 and is graded
  \<open>Again\<close> when it is due, the second graduates at the clock 2000.\<close>

lemma run_two_cards_first:
  "reviewCardState
     (applyActions
        (EnsureReviewCardsFromUnits
           [\<lparr> title = ''Two Sum'',
              flashcards = Some [Flashcard ''f1'' ''two-sum'' ''q1'' ''a1'',
                                 Flashcard ''f2'' ''two-sum'' ''q2'' ''a2''] \<rparr>]
         # replicate 10 (RecordReviewResult ''f1'' Good 1000)
         @ replicate 10 (RecordReviewResult ''f2'' Easy 2000)
         @ [RecordReviewResult ''f1'' Again 86401000])
        emptyStore) ''f1''
   = Some \<lparr> phase = Review, seenCount = 10, dueAt = 172801000, interval = 1, repetition = 0,
            efactor = 2206763817411543 / 1125899906842624, lapses = 1,
            lastReviewedAt = Some 86401000 \<rparr>"
  by code_simp

lemma run_two_cards_second:
  "reviewCardState
     (applyActions
        (EnsureReviewCardsFromUnits
           [\<lparr> title = ''Two Sum'',
              flashcards = Some [Flashcard ''f1'' ''two-sum'' ''q1'' ''a1'',
                                 Flashcard ''f2'' ''two-sum'' ''q2'' ''a2''] \<rparr>]
         # replicate 10 (RecordReviewResult ''f1'' Good 1000)
         @ replicate 10 (RecordReviewResult ''f2'' Easy 2000)
         @ [RecordReviewResult ''f1'' Again 86401000])
        emptyStore) ''f2''
   = Some \<lparr> phase = Review, seenCount = 10, dueAt = 86402000, interval = 1, repetition = 1,
            efactor = 5 / 2, lapses = 0, lastReviewedAt = Some 2000 \<rparr>"
  by code_simp

text \<open>
  C7. Take any store in which every review state has a positive \<open>dueAt\<close> (the empty
  store, a store of fresh cards), run any review actions on it at clock values that are
  not negative (no entry of the store and no action naming an inherited property), and
  let \<open>cards\<close> be a due pool of the store reached: every card of it
  has a state in review with \<open>dueAt \<le> now\<close>. Then each candidate's weight is exactly
  \<open>1 + overdueDays + lapses * 0.5\<close> with
  \<open>overdueDays = max(0, (now2 - dueAt) / 86400000)\<close>, \<open>now2\<close> being the clock read by
  \<open>weightedRandomByOverdue\<close>; the weight is at least 1; and there is a value of
  \<open>Math.random()\<close> in \<open>[0, 1)\<close> (a draw in \<open>[0, total)\<close>) for which the candidate is
  the card returned.
\<close>

theorem due_weight:
  assumes start: "\<forall>k st. reviewCardState start k = Some st \<longrightarrow>
                     k \<notin> set objectPrototypeKeys \<and> (phase st = Learn \<or> 0 < dueAt st)"
      and clocks: "\<forall>a \<in> set acts. ownKeysOnly a \<and> clockNonNegative a"
      and pool: "\<forall>c \<in> set cards. \<exists>st. reviewCardState (applyActions acts start) (card_id c) = Some st \<and>
                    phase st = Review \<and> dueAt st \<le> now"
      and c: "c \<in> set cards"
  shows "\<exists>st. reviewCardState (applyActions acts start) (card_id c) = Some st \<and>
           cardWeight now2 (reviewCardState (applyActions acts start)) c
             = 1 + max 0 (real_of_int (now2 - dueAt st) / 86400000) + real (lapses st) * 0.5 \<and>
           1 \<le> cardWeight now2 (reviewCardState (applyActions acts start)) c \<and>
           (\<exists>r. 0 \<le> r \<and> r < 1 \<and>
                weightedRandomByOverdue cards (reviewCardState (applyActions acts start)) now2 r
                  = Inr c)"
proof -
  let ?P = "\<lambda>st. phase st = Learn \<or> 0 < dueAt st"
  have inv: "\<forall>k st. reviewCardState (applyActions acts start) k = Some st \<longrightarrow> ?P st"
  proof (rule run_invariant[where P = ?P and ok = "\<lambda>now. 0 \<le> now"])
    show "?P initialReviewState" by (simp add: initialReviewState_def)
    show "?P (nextReviewState s g now)" if "?P s" "0 \<le> now" for s g now
      using next_due_positive[OF that(2), of s g] .
    show "\<forall>k st. reviewCardState start k = Some st \<longrightarrow> ?P st" using start by blast
    show "\<forall>a \<in> set acts. \<forall>k g now. a = RecordReviewResult k g now \<longrightarrow> 0 \<le> now"
      using clocks by (intro clock_ok_cases) blast
  qed
  from pool c obtain st where st: "reviewCardState (applyActions acts start) (card_id c) = Some st"
    "phase st = Review" by blast
  with inv have "phase st = Learn \<or> 0 < dueAt st" by blast
  with st(2) have "dueAt st \<noteq> 0" by simp
  from cardWeight_formula[where stateById = "reviewCardState (applyActions acts start)"
         and c = c and st = st and now = now2, OF st(1) this]
    cardWeight_at_least_one[of now2 "reviewCardState (applyActions acts start)" c]
    every_card_can_be_drawn[OF c, of "reviewCardState (applyActions acts start)" now2]
    st(1)
  show ?thesis by simp
qed

text \<open>
  Both cards of the run are due at the clock 259201000; the first is then one day
  overdue and has one lapse.
\<close>

theorem due_weight_witness:
  "cardWeight 259201000
     (reviewCardState
        (applyActions
           (EnsureReviewCardsFromUnits
              [\<lparr> title = ''Two Sum'',
                 flashcards = Some [Flashcard ''f1'' ''two-sum'' ''q1'' ''a1'',
                                    Flashcard ''f2'' ''two-sum'' ''q2'' ''a2''] \<rparr>]
            # replicate 10 (RecordReviewResult ''f1'' Good 1000)
            @ replicate 10 (RecordReviewResult ''f2'' Easy 2000)
            @ [RecordReviewResult ''f1'' Again 86401000])
           emptyStore))
     (ConceptCard ''f1'' ''two-sum'' Seed ''q1'' ''a1'' (Some [''Two Sum''])) = 5 / 2 \<and>
   (\<exists>r. 0 \<le> r \<and> r < 1 \<and>
      weightedRandomByOverdue
        [ConceptCard ''f2'' ''two-sum'' Seed ''q2'' ''a2'' (Some [''Two Sum'']),
         ConceptCard ''f1'' ''two-sum'' Seed ''q1'' ''a1'' (Some [''Two Sum''])]
        (reviewCardState
           (applyActions
              (EnsureReviewCardsFromUnits
                 [\<lparr> title = ''Two Sum'',
                    flashcards = Some [Flashcard ''f1'' ''two-sum'' ''q1'' ''a1'',
                                       Flashcard ''f2'' ''two-sum'' ''q2'' ''a2''] \<rparr>]
               # replicate 10 (RecordReviewResult ''f1'' Good 1000)
               @ replicate 10 (RecordReviewResult ''f2'' Easy 2000)
               @ [RecordReviewResult ''f1'' Again 86401000])
              emptyStore))
        259201000 r
      = Inr (ConceptCard ''f1'' ''two-sum'' Seed ''q1'' ''a1'' (Some [''Two Sum''])))"
proof -
  let ?acts = "EnsureReviewCardsFromUnits
              [\<lparr> title = ''Two Sum'',
                 flashcards = Some [Flashcard ''f1'' ''two-sum'' ''q1'' ''a1'',
                                    Flashcard ''f2'' ''two-sum'' ''q2'' ''a2''] \<rparr>]
            # replicate 10 (RecordReviewResult ''f1'' Good 1000)
            @ replicate 10 (RecordReviewResult ''f2'' Easy 2000)
            @ [RecordReviewResult ''f1'' Again 86401000]"
  let ?f1 = "ConceptCard ''f1'' ''two-sum'' Seed ''q1'' ''a1'' (Some [''Two Sum''])"
  let ?f2 = "ConceptCard ''f2'' ''two-sum'' Seed ''q2'' ''a2'' (Some [''Two Sum''])"
  have start: "\<forall>k st. reviewCardState emptyStore k = Some st \<longrightarrow>
                 k \<notin> set objectPrototypeKeys \<and> (phase st = Learn \<or> 0 < dueAt st)"
    by (simp add: emptyStore_def)
  have clocks: "\<forall>a \<in> set ?acts. ownKeysOnly a \<and> clockNonNegative a"
    by (auto simp add: seedCardsFromUnits_def objectPrototypeKeys_def)
  have pool: "\<forall>c \<in> set [?f2, ?f1]. \<exists>st. reviewCardState (applyActions ?acts emptyStore) (card_id c) = Some st \<and>
                   phase st = Review \<and> dueAt st \<le> 259201000"
  proof (intro ballI)
    fix c assume "c \<in> set [?f2, ?f1]"
    then consider (second) "c = ?f2" | (first) "c = ?f1" by auto
    then show "\<exists>st. reviewCardState (applyActions ?acts emptyStore) (card_id c) = Some st \<and>
                   phase st = Review \<and> dueAt st \<le> 259201000"
    proof cases
      case second
      show ?thesis unfolding second ReviewCard.sel run_two_cards_second by simp
    next
      case first
      show ?thesis unfolding first ReviewCard.sel run_two_cards_first by simp
    qed
  qed
  have c: "?f1 \<in> set [?f2, ?f1]" by simp
  from due_weight[OF start clocks pool c, of 259201000]
  obtain st where st: "reviewCardState (applyActions ?acts emptyStore) (card_id ?f1) = Some st"
    and w: "cardWeight 259201000 (reviewCardState (applyActions ?acts emptyStore)) ?f1
              = 1 + max 0 (real_of_int (259201000 - dueAt st) / 86400000) + real (lapses st) * 0.5"
    and r: "\<exists>r. 0 \<le> r \<and> r < 1 \<and>
              weightedRandomByOverdue [?f2, ?f1] (reviewCardState (applyActions ?acts emptyStore))
                259201000 r = Inr ?f1"
    by blast
  from st have "st = \<lparr> phase = Review, seenCount = 10, dueAt = 172801000, interval = 1,
            repetition = 0, efactor = 2206763817411543 / 1125899906842624, lapses = 1,
            lastReviewedAt = Some 86401000 \<rparr>"
    unfolding ReviewCard.sel run_two_cards_first by simp
  with w have "cardWeight 259201000 (reviewCardState (applyActions ?acts emptyStore)) ?f1 = 5 / 2"
    by simp
  from this r show ?thesis by (rule conjI)
qed

end
